theory Spec2Isabelle
  imports Main "HOL-Library.Word"
begin

unbundle bit_operations_syntax

section \<open>JavaScript values the access-control code relies on\<close>

text \<open>
  The role tables of \<^verbatim>\<open>middleware/rbac.js\<close> are object literals, read with
  \<^verbatim>\<open>TABLE[key]\<close>. Such a read first looks at the literal's own properties and then
  at \<^verbatim>\<open>Object.prototype\<close>, which every object literal inherits from. A read
  therefore has three outcomes: the own value, an inherited member (a built-in function, or
  the prototype object itself for \<^verbatim>\<open>__proto__\<close>), or \<^verbatim>\<open>undefined\<close>.
\<close>

datatype 'a js_prop = Own 'a | Inherited string

text \<open>The property names of \<^verbatim>\<open>Object.prototype\<close> (ECMAScript, with Annex B).\<close>

definition Object_prototype :: "string list" where
  "Object_prototype =
     [''constructor'', ''__defineGetter__'', ''__defineSetter__'', ''hasOwnProperty'',
      ''__lookupGetter__'', ''__lookupSetter__'', ''isPrototypeOf'',
      ''propertyIsEnumerable'', ''toString'', ''valueOf'', ''__proto__'',
      ''toLocaleString'']"

text \<open>\<^verbatim>\<open>obj[key]\<close>; \<open>None\<close> is \<^verbatim>\<open>undefined\<close>.\<close>

definition js_get :: "(string \<times> 'a) list \<Rightarrow> string \<Rightarrow> 'a js_prop option" where
  "js_get obj key =
     (case map_of obj key of
        Some v \<Rightarrow> Some (Own v)
      | None \<Rightarrow> if key \<in> set Object_prototype then Some (Inherited key) else None)"

datatype js_error = TypeError | ReferenceError

text \<open>
  \<^verbatim>\<open>permissions.includes(p)\<close>: on an array it is membership; a built-in function and
  the prototype object have no \<^verbatim>\<open>includes\<close> member, so the call raises TypeError.
\<close>

fun js_includes :: "string list js_prop \<Rightarrow> string \<Rightarrow> js_error + bool" where
  "js_includes (Own ps) p = Inr (p \<in> set ps)"
| "js_includes (Inherited k) p = Inl TypeError"

text \<open>
  \<^verbatim>\<open>Array.prototype.some\<close> and \<^verbatim>\<open>every\<close>: the callback runs on the elements
  in order, the loop stops at the first deciding element, and an exception of the callback
  leaves the loop.
\<close>

fun Array_some :: "('a \<Rightarrow> js_error + bool) \<Rightarrow> 'a list \<Rightarrow> js_error + bool" where
  "Array_some f [] = Inr False"
| "Array_some f (x # xs) =
     (case f x of Inl e \<Rightarrow> Inl e | Inr b \<Rightarrow> if b then Inr True else Array_some f xs)"

fun Array_every :: "('a \<Rightarrow> js_error + bool) \<Rightarrow> 'a list \<Rightarrow> js_error + bool" where
  "Array_every f [] = Inr True"
| "Array_every f (x # xs) =
     (case f x of Inl e \<Rightarrow> Inl e | Inr b \<Rightarrow> if b then Array_every f xs else Inr False)"

text \<open>Comparison of two strings by code units, as \<^verbatim>\<open><\<close> does on strings.\<close>

fun js_string_lt :: "string \<Rightarrow> string \<Rightarrow> bool" where
  "js_string_lt [] [] = False"
| "js_string_lt [] (y # ys) = True"
| "js_string_lt (x # xs) [] = False"
| "js_string_lt (x # xs) (y # ys) =
     (if (of_char x :: nat) < of_char y then True
      else if (of_char y :: nat) < of_char x then False
      else js_string_lt xs ys)"

text \<open>
  The primitive an inherited member turns into under a relational operator: the source
  text of a built-in function as Node prints it, or \<^verbatim>\<open>[object Object]\<close> for the
  prototype object.
\<close>

definition ToPrimitive :: "string \<Rightarrow> string" where
  "ToPrimitive key =
     (if key = ''__proto__'' then ''[object Object]''
      else ''function '' @ (if key = ''constructor'' then ''Object'' else key)
             @ ''() { [native code] }'')"

text \<open>
  \<^verbatim>\<open>a >= b\<close> on what a read of the hierarchy table yields. Two numbers compare as
  numbers. An inherited member against a number is converted to a number, which gives NaN
  for each of the primitives above, and every comparison with NaN is false. Two inherited
  members compare as strings, and \<^verbatim>\<open>a >= b\<close> is the negation of \<^verbatim>\<open>a < b\<close>.
\<close>

fun js_ge :: "int js_prop \<Rightarrow> int js_prop \<Rightarrow> bool" where
  "js_ge (Own a) (Own b) = (b \<le> a)"
| "js_ge (Own a) (Inherited k) = False"
| "js_ge (Inherited k) (Own b) = False"
| "js_ge (Inherited k1) (Inherited k2) = (\<not> js_string_lt (ToPrimitive k1) (ToPrimitive k2))"

section \<open>Roles and permissions (middleware/rbac.js)\<close>

definition ROLES_USER :: string where "ROLES_USER = ''user''"
definition ROLES_MODERATOR :: string where "ROLES_MODERATOR = ''moderator''"
definition ROLES_ADMIN :: string where "ROLES_ADMIN = ''admin''"
definition ROLES_SUPER_ADMIN :: string where "ROLES_SUPER_ADMIN = ''super_admin''"

definition ROLES :: "(string \<times> string) list" where
  "ROLES = [(''USER'', ROLES_USER), (''MODERATOR'', ROLES_MODERATOR),
            (''ADMIN'', ROLES_ADMIN), (''SUPER_ADMIN'', ROLES_SUPER_ADMIN)]"

definition USER_READ :: string where "USER_READ = ''user:read''"
definition USER_UPDATE :: string where "USER_UPDATE = ''user:update''"
definition USER_DELETE :: string where "USER_DELETE = ''user:delete''"
definition USER_MANAGE :: string where "USER_MANAGE = ''user:manage''"
definition INFLUENCER_READ :: string where "INFLUENCER_READ = ''influencer:read''"
definition INFLUENCER_CREATE :: string where "INFLUENCER_CREATE = ''influencer:create''"
definition INFLUENCER_UPDATE :: string where "INFLUENCER_UPDATE = ''influencer:update''"
definition INFLUENCER_DELETE :: string where "INFLUENCER_DELETE = ''influencer:delete''"
definition CAMPAIGN_READ :: string where "CAMPAIGN_READ = ''campaign:read''"
definition CAMPAIGN_CREATE :: string where "CAMPAIGN_CREATE = ''campaign:create''"
definition CAMPAIGN_UPDATE :: string where "CAMPAIGN_UPDATE = ''campaign:update''"
definition CAMPAIGN_DELETE :: string where "CAMPAIGN_DELETE = ''campaign:delete''"
definition MODEL_READ :: string where "MODEL_READ = ''model:read''"
definition MODEL_CREATE :: string where "MODEL_CREATE = ''model:create''"
definition MODEL_UPDATE :: string where "MODEL_UPDATE = ''model:update''"
definition MODEL_DELETE :: string where "MODEL_DELETE = ''model:delete''"
definition ANALYTICS_READ :: string where "ANALYTICS_READ = ''analytics:read''"
definition ANALYTICS_EXPORT :: string where "ANALYTICS_EXPORT = ''analytics:export''"
definition ADMIN_ACCESS :: string where "ADMIN_ACCESS = ''admin:access''"
definition SYSTEM_CONFIG :: string where "SYSTEM_CONFIG = ''system:config''"
definition ROLE_MANAGE :: string where "ROLE_MANAGE = ''role:manage''"

definition PERMISSIONS :: "(string \<times> string) list" where
  "PERMISSIONS =
     [(''USER_READ'', USER_READ), (''USER_UPDATE'', USER_UPDATE),
      (''USER_DELETE'', USER_DELETE), (''USER_MANAGE'', USER_MANAGE),
      (''INFLUENCER_READ'', INFLUENCER_READ), (''INFLUENCER_CREATE'', INFLUENCER_CREATE),
      (''INFLUENCER_UPDATE'', INFLUENCER_UPDATE), (''INFLUENCER_DELETE'', INFLUENCER_DELETE),
      (''CAMPAIGN_READ'', CAMPAIGN_READ), (''CAMPAIGN_CREATE'', CAMPAIGN_CREATE),
      (''CAMPAIGN_UPDATE'', CAMPAIGN_UPDATE), (''CAMPAIGN_DELETE'', CAMPAIGN_DELETE),
      (''MODEL_READ'', MODEL_READ), (''MODEL_CREATE'', MODEL_CREATE),
      (''MODEL_UPDATE'', MODEL_UPDATE), (''MODEL_DELETE'', MODEL_DELETE),
      (''ANALYTICS_READ'', ANALYTICS_READ), (''ANALYTICS_EXPORT'', ANALYTICS_EXPORT),
      (''ADMIN_ACCESS'', ADMIN_ACCESS), (''SYSTEM_CONFIG'', SYSTEM_CONFIG),
      (''ROLE_MANAGE'', ROLE_MANAGE)]"

text \<open>\<^verbatim>\<open>Object.values\<close>: the values of the own properties, in insertion order.\<close>

definition Object_values :: "(string \<times> 'a) list \<Rightarrow> 'a list" where
  "Object_values obj = map snd obj"

text \<open>
  The role table. Its moderator and admin entries spread \<^verbatim>\<open>ROLES_USER_PERMISSIONS\<close>
  and \<^verbatim>\<open>ROLES_MODERATOR_PERMISSIONS\<close>. The file declares these names with
  \<^verbatim>\<open>const\<close> below the table, as \<^verbatim>\<open>ROLE_PERMISSIONS[ROLES.USER]\<close> and
  \<^verbatim>\<open>ROLE_PERMISSIONS[ROLES.MODERATOR]\<close>. The top-level statements of a module run in
  source order, and a \<^verbatim>\<open>const\<close> can be read only after its declaration has run:
  before that the read raises a ReferenceError. A \<open>scope\<close> says which of the names have
  a value; the table literal is evaluated in a scope, entry after entry.
\<close>

type_synonym scope = "string \<Rightarrow> string list option"

definition read_const :: "scope \<Rightarrow> string \<Rightarrow> js_error + string list" where
  "read_const sc name = (case sc name of None \<Rightarrow> Inl ReferenceError | Some v \<Rightarrow> Inr v)"

definition ROLE_PERMISSIONS_literal :: "scope \<Rightarrow> js_error + (string \<times> string list) list" where
  "ROLE_PERMISSIONS_literal sc =
     (case read_const sc ''ROLES_USER_PERMISSIONS'' of
        Inl e \<Rightarrow> Inl e
      | Inr user_permissions \<Rightarrow>
          (case read_const sc ''ROLES_MODERATOR_PERMISSIONS'' of
             Inl e \<Rightarrow> Inl e
           | Inr moderator_permissions \<Rightarrow>
               Inr [(ROLES_USER,
                      [USER_READ, USER_UPDATE,
                       INFLUENCER_READ, INFLUENCER_CREATE, INFLUENCER_UPDATE,
                       CAMPAIGN_READ, CAMPAIGN_CREATE, CAMPAIGN_UPDATE,
                       MODEL_READ, MODEL_CREATE, MODEL_UPDATE,
                       ANALYTICS_READ]),
                    (ROLES_MODERATOR,
                      user_permissions @
                      [INFLUENCER_DELETE, CAMPAIGN_DELETE, MODEL_DELETE, ANALYTICS_EXPORT]),
                    (ROLES_ADMIN,
                      moderator_permissions @ [USER_MANAGE, ADMIN_ACCESS]),
                    (ROLES_SUPER_ADMIN, Object_values PERMISSIONS)]))"

text \<open>
  Loading the module evaluates the table literal first, when none of the three names
  declared below it has a value.
\<close>

definition scope_at_load :: scope where
  "scope_at_load = (\<lambda>name. None)"

definition load_ROLE_PERMISSIONS :: "js_error + (string \<times> string list) list" where
  "load_ROLE_PERMISSIONS = ROLE_PERMISSIONS_literal scope_at_load"

text \<open>
  The lists the literal is written to give the user, moderator and admin roles, each
  built from the one below it: what the three names would stand for once the table
  existed.
\<close>

definition ROLES_USER_PERMISSIONS :: "string list" where
  "ROLES_USER_PERMISSIONS =
     [USER_READ, USER_UPDATE,
      INFLUENCER_READ, INFLUENCER_CREATE, INFLUENCER_UPDATE,
      CAMPAIGN_READ, CAMPAIGN_CREATE, CAMPAIGN_UPDATE,
      MODEL_READ, MODEL_CREATE, MODEL_UPDATE,
      ANALYTICS_READ]"

definition ROLES_MODERATOR_PERMISSIONS :: "string list" where
  "ROLES_MODERATOR_PERMISSIONS =
     ROLES_USER_PERMISSIONS @
     [INFLUENCER_DELETE, CAMPAIGN_DELETE, MODEL_DELETE, ANALYTICS_EXPORT]"

definition ROLES_ADMIN_PERMISSIONS :: "string list" where
  "ROLES_ADMIN_PERMISSIONS =
     ROLES_MODERATOR_PERMISSIONS @ [USER_MANAGE, ADMIN_ACCESS]"

text \<open>
  The module. Its functions read two bindings of the module scope,
  \<^verbatim>\<open>ROLE_PERMISSIONS\<close> and \<^verbatim>\<open>ROLE_HIERARCHY\<close>, and reach their callers through
  \<^verbatim>\<open>module.exports\<close>, the last statement of the file. A module value exists only
  when every top-level statement has run: the table literal comes first, the hierarchy
  literal (which reads \<^verbatim>\<open>ROLES\<close> only) and the exports after it. An exception of a
  top-level statement ends the evaluation, and \<^verbatim>\<open>require\<close> hands it to the caller.
\<close>

record rbac_module =
  ROLE_PERMISSIONS :: "(string \<times> string list) list"
  ROLE_HIERARCHY :: "(string \<times> int) list"

definition load_rbac :: "js_error + rbac_module" where
  "load_rbac =
     (case load_ROLE_PERMISSIONS of
        Inl e \<Rightarrow> Inl e
      | Inr table \<Rightarrow>
          Inr \<lparr> ROLE_PERMISSIONS = table,
                ROLE_HIERARCHY =
                  [(ROLES_USER, 1), (ROLES_MODERATOR, 2), (ROLES_ADMIN, 3),
                   (ROLES_SUPER_ADMIN, 4)] \<rparr>)"

text \<open>
  What a caller of an exported function gets: \<^verbatim>\<open>require\<close> of the module, then the
  call of the function \<open>f\<close> in the module that was loaded.
\<close>

definition with_rbac :: "(rbac_module \<Rightarrow> js_error + 'a) \<Rightarrow> js_error + 'a" where
  "with_rbac f = (case load_rbac of Inl e \<Rightarrow> Inl e | Inr m \<Rightarrow> f m)"

text \<open>
  The function bodies, in a module \<open>m\<close>.
  \<^verbatim>\<open>ROLE_PERMISSIONS[role] || []\<close>: arrays (the empty one too), functions and
  objects are all truthy, so the empty array replaces \<^verbatim>\<open>undefined\<close> only.
\<close>

definition getRolePermissions :: "rbac_module \<Rightarrow> string \<Rightarrow> string list js_prop" where
  "getRolePermissions m role =
     (case js_get (ROLE_PERMISSIONS m) role of Some v \<Rightarrow> v | None \<Rightarrow> Own [])"

definition roleHasPermission :: "rbac_module \<Rightarrow> string \<Rightarrow> string \<Rightarrow> js_error + bool" where
  "roleHasPermission m role permission =
     (let permissions = getRolePermissions m role in js_includes permissions permission)"

text \<open>
  The user an access decision is made for. \<open>role\<close> is \<open>None\<close> where the field is
  missing or null. The guard \<^verbatim>\<open>!user || !user.role\<close> holds for an absent user, for
  a missing or null role and for the empty string; \<open>truthy_role\<close> is the role of a user
  the guard lets through.
\<close>

record user =
  uid :: string
  role :: "string option"

definition truthy_role :: "user option \<Rightarrow> string option" where
  "truthy_role u =
     (case u of
        None \<Rightarrow> None
      | Some v \<Rightarrow> (case role v of None \<Rightarrow> None | Some r \<Rightarrow> if r = [] then None else Some r))"

definition userHasPermission :: "rbac_module \<Rightarrow> user option \<Rightarrow> string \<Rightarrow> js_error + bool" where
  "userHasPermission m u permission =
     (case truthy_role u of
        None \<Rightarrow> Inr False
      | Some r \<Rightarrow> let permissions = getRolePermissions m r
                  in js_includes permissions permission)"

definition userHasAnyPermission ::
    "rbac_module \<Rightarrow> user option \<Rightarrow> string list \<Rightarrow> js_error + bool" where
  "userHasAnyPermission m u permissionList =
     (case truthy_role u of
        None \<Rightarrow> Inr False
      | Some r \<Rightarrow> let permissions = getRolePermissions m r
                  in Array_some (\<lambda>p. js_includes permissions p) permissionList)"

definition userHasAllPermissions ::
    "rbac_module \<Rightarrow> user option \<Rightarrow> string list \<Rightarrow> js_error + bool" where
  "userHasAllPermissions m u permissionList =
     (case truthy_role u of
        None \<Rightarrow> Inr False
      | Some r \<Rightarrow> let permissions = getRolePermissions m r
                  in Array_every (\<lambda>p. js_includes permissions p) permissionList)"

definition isValidRole :: "string \<Rightarrow> bool" where
  "isValidRole r = (r \<in> set (Object_values ROLES))"

text \<open>
  \<^verbatim>\<open>ROLE_HIERARCHY[role] || 0\<close>, the level both \<^verbatim>\<open>isRoleHigherOrEqual\<close> and
  \<^verbatim>\<open>requireMinRole\<close> compute: 0 replaces \<^verbatim>\<open>undefined\<close> (and a stored 0), an
  inherited member is truthy and stays.
\<close>

definition hierarchyLevel :: "rbac_module \<Rightarrow> string \<Rightarrow> int js_prop" where
  "hierarchyLevel m r =
     (case js_get (ROLE_HIERARCHY m) r of
        Some (Own n) \<Rightarrow> if n = 0 then Own 0 else Own n
      | Some (Inherited k) \<Rightarrow> Inherited k
      | None \<Rightarrow> Own 0)"

definition isRoleHigherOrEqual :: "rbac_module \<Rightarrow> string \<Rightarrow> string \<Rightarrow> bool" where
  "isRoleHigherOrEqual m role1 role2 =
     (let level1 = hierarchyLevel m role1; level2 = hierarchyLevel m role2
      in js_ge level1 level2)"

section \<open>Session tokens (services/session.js)\<close>

text \<open>
  \<^verbatim>\<open>crypto.randomBytes(n)\<close> hands out the next \<open>n\<close> bytes of the system's random
  source. The source is a parameter of the model: the sequence of bytes it delivers.
\<close>

type_synonym entropy = "nat \<Rightarrow> 8 word"

definition randomBytes :: "nat \<Rightarrow> entropy \<Rightarrow> 8 word list" where
  "randomBytes n src = map src [0..<n]"

definition hex_digit :: "nat \<Rightarrow> char" where
  "hex_digit n = ''0123456789abcdef'' ! n"

text \<open>\<^verbatim>\<open>buf.toString('hex')\<close>: two digits for each byte, the high four bits first.\<close>

definition hex_byte :: "8 word \<Rightarrow> string" where
  "hex_byte b = [hex_digit (unat (drop_bit 4 b)), hex_digit (unat (b AND 15))]"

definition toString_hex :: "8 word list \<Rightarrow> string" where
  "toString_hex buf = concat (map hex_byte buf)"

definition generateSessionToken :: "entropy \<Rightarrow> string" where
  "generateSessionToken src = toString_hex (randomBytes 64 src)"

section \<open>The session store (services/session.js over the sessions and users tables)\<close>

text \<open>
  The service talks to the store through SQL statements. The model keeps the two tables
  the statements touch as lists of rows and gives each statement its meaning on them.
  Identifiers are opaque strings and taken to be well formed (the store's checks of
  column formats and lengths are not part of the model); timestamps are milliseconds.
  One clock value \<open>now\<close> stands for both \<^verbatim>\<open>Date.now()\<close> and the store's
  \<^verbatim>\<open>NOW()\<close> during one call.
\<close>

type_synonym uuid = string
type_synonym timestamp = int

definition SESSION_STATUS_ACTIVE :: string where "SESSION_STATUS_ACTIVE = ''active''"
definition SESSION_STATUS_EXPIRED :: string where "SESSION_STATUS_EXPIRED = ''expired''"
definition SESSION_STATUS_REVOKED :: string where "SESSION_STATUS_REVOKED = ''revoked''"

record users_row =
  u_id :: uuid
  u_name :: string
  u_email :: string
  u_role :: "string option"
  u_status :: "string option"

record sessions_row =
  s_id :: uuid
  user_id :: uuid
  session_token :: string
  ip_address :: "string option"
  user_agent :: "string option"
  device_info :: "string option"
  status :: string
  expires_at :: timestamp
  created_at :: timestamp
  last_active_at :: timestamp
  revoked_at :: "timestamp option"

record db =
  users :: "users_row list"
  sessions :: "sessions_row list"

datatype store_error = UniqueViolation | ForeignKeyViolation | InvalidRowCount

text \<open>
  \<^verbatim>\<open>UPDATE sessions SET ... WHERE ...\<close>: every row the condition selects is
  rewritten, and \<^verbatim>\<open>rowCount\<close> is the number of rows selected (a row counts even
  when the values written are the ones it already holds).
\<close>

definition sql_update ::
    "(sessions_row \<Rightarrow> bool) \<Rightarrow> (sessions_row \<Rightarrow> sessions_row) \<Rightarrow> db \<Rightarrow> nat \<times> db" where
  "sql_update cond upd d =
     (length (filter cond (sessions d)),
      d\<lparr>sessions := map (\<lambda>s. if cond s then upd s else s) (sessions d)\<rparr>)"

record metadata =
  ip :: "string option"
  userAgent :: "string option"
  deviceInfo :: "string option"

record config =
  cookie_max_age :: "int option"

text \<open>\<^verbatim>\<open>x || null\<close> on an optional string: a missing and an empty one give null.\<close>

definition or_null :: "string option \<Rightarrow> string option" where
  "or_null x = (case x of None \<Rightarrow> None | Some v \<Rightarrow> if v = [] then None else Some v)"

text \<open>\<^verbatim>\<open>config.session.cookie_max_age || 604800000\<close>.\<close>

definition session_lifetime :: "config \<Rightarrow> int" where
  "session_lifetime cfg =
     (case cookie_max_age cfg of
        None \<Rightarrow> 604800000
      | Some n \<Rightarrow> if n = 0 then 604800000 else n)"

text \<open>
  \<^verbatim>\<open>createSession\<close>. The INSERT names neither \<^verbatim>\<open>id\<close> nor \<^verbatim>\<open>status\<close> nor
  \<^verbatim>\<open>last_active_at\<close>: the store fills them with a generated identifier (the parameter
  \<open>new_id\<close>), \<^verbatim>\<open>'active'\<close> and the current time. The store refuses a row whose
  owner is not in the users table and one whose identifier or token is already taken; the
  service hands such a failure on to its caller. The function returns the inserted row.
\<close>

definition createSession ::
    "config \<Rightarrow> entropy \<Rightarrow> uuid \<Rightarrow> timestamp \<Rightarrow> uuid \<Rightarrow> metadata \<Rightarrow> db
       \<Rightarrow> store_error + (sessions_row \<times> db)" where
  "createSession cfg src new_id now userId md d =
     (let sessionToken = generateSessionToken src;
          expiresAt = now + session_lifetime cfg;
          row = \<lparr> s_id = new_id, user_id = userId, session_token = sessionToken,
                  ip_address = or_null (ip md), user_agent = or_null (userAgent md),
                  device_info = or_null (deviceInfo md), status = ''active'',
                  expires_at = expiresAt, created_at = now, last_active_at = now,
                  revoked_at = None \<rparr>
      in if userId \<notin> set (map u_id (users d)) then Inl ForeignKeyViolation
         else if \<exists>s \<in> set (sessions d). s_id s = new_id \<or> session_token s = sessionToken
           then Inl UniqueViolation
         else Inr (row, d\<lparr>sessions := sessions d @ [row]\<rparr>))"

text \<open>
  \<^verbatim>\<open>validateSession\<close>. The statement has one parameter, the token, and its condition
  reads \<^verbatim>\<open>s.session_token = $1 AND s.status = $1 AND s.expires_at > NOW()\<close>: both the
  token column and the status column are compared with the token.
\<close>

definition validateSession ::
    "string option \<Rightarrow> timestamp \<Rightarrow> db \<Rightarrow> (sessions_row \<times> users_row) option" where
  "validateSession token now d =
     (case token of
        None \<Rightarrow> None
      | Some t \<Rightarrow>
          if t = [] then None
          else (case [(s, u). s \<leftarrow> sessions d, u \<leftarrow> users d, user_id s = u_id u,
                              session_token s = t \<and> status s = t \<and> now < expires_at s] of
                  [] \<Rightarrow> None
                | r # _ \<Rightarrow> Some r))"

text \<open>
  The masking expression of \<^verbatim>\<open>getUserSessions\<close>; \<^verbatim>\<open>substring\<close> treats a
  negative start as 0.
\<close>

definition mask_token :: "string \<Rightarrow> string" where
  "mask_token t =
     take 8 t @ ''...'' @ drop (nat (max 0 (int (length t) - 8))) t"

record options =
  opt_status :: "string option"
  opt_page :: "int option"
  opt_limit :: "int option"

datatype js_number = Num int | Infinity | NaN

record pagination =
  page :: int
  limit :: int
  total :: int
  pages :: js_number

record listing =
  listed :: "sessions_row list"
  paging :: pagination

text \<open>\<^verbatim>\<open>Math.ceil(total / limit)\<close> for a row count \<open>total\<close>.\<close>

definition ceil_div :: "int \<Rightarrow> int \<Rightarrow> js_number" where
  "ceil_div t l =
     (if l = 0 then (if t = 0 then NaN else Infinity) else Num (- ((- t) div l)))"

text \<open>
  \<^verbatim>\<open>getUserSessions\<close>. The rows come back ordered by \<^verbatim>\<open>last_active_at\<close>,
  latest first (rows with equal times keep their table order here; the store leaves that
  order open), and the store refuses a negative LIMIT or OFFSET. Each row of the page gets
  its token masked.
\<close>

definition getUserSessions ::
    "uuid \<Rightarrow> options \<Rightarrow> db \<Rightarrow> store_error + listing" where
  "getUserSessions userId opts d =
     (let st = (case opt_status opts of None \<Rightarrow> ''active'' | Some v \<Rightarrow> v);
          pg = (case opt_page opts of None \<Rightarrow> 1 | Some v \<Rightarrow> v);
          lim = (case opt_limit opts of None \<Rightarrow> 20 | Some v \<Rightarrow> v);
          offset = (pg - 1) * lim;
          matching = filter (\<lambda>s. user_id s = userId \<and> (st \<noteq> ''all'' \<longrightarrow> status s = st))
                       (sessions d);
          tot = int (length matching)
      in if lim < 0 \<or> offset < 0 then Inl InvalidRowCount
         else
           let rows = take (nat lim)
                        (drop (nat offset) (sort_key (\<lambda>s. - last_active_at s) matching))
           in Inr \<lparr> listed = map (\<lambda>s. s\<lparr>session_token := mask_token (session_token s)\<rparr>) rows,
                    paging = \<lparr> page = pg, limit = lim, total = tot,
                               pages = ceil_div tot lim \<rparr> \<rparr>)"

text \<open>\<^verbatim>\<open>getSessionById\<close>: \<^verbatim>\<open>result.rows[0] || null\<close>, the row as the store has it.\<close>

definition getSessionById :: "uuid \<Rightarrow> uuid \<Rightarrow> db \<Rightarrow> sessions_row option" where
  "getSessionById sessionId userId d =
     (case filter (\<lambda>s. s_id s = sessionId \<and> user_id s = userId) (sessions d) of
        [] \<Rightarrow> None
      | r # _ \<Rightarrow> Some r)"

definition updateSessionActivity :: "uuid \<Rightarrow> timestamp \<Rightarrow> db \<Rightarrow> db" where
  "updateSessionActivity sessionId now d =
     snd (sql_update (\<lambda>s. s_id s = sessionId) (\<lambda>s. s\<lparr>last_active_at := now\<rparr>) d)"

text \<open>
  \<^verbatim>\<open>revokeSession\<close>: the condition of its UPDATE is
  \<^verbatim>\<open>id = $2 AND user_id = $3\<close>; the status of the row is not part of it.
\<close>

definition revokeSession :: "uuid \<Rightarrow> uuid \<Rightarrow> timestamp \<Rightarrow> db \<Rightarrow> bool \<times> db" where
  "revokeSession sessionId userId now d =
     (let (rowCount, d') =
            sql_update (\<lambda>s. s_id s = sessionId \<and> user_id s = userId)
              (\<lambda>s. s\<lparr>status := SESSION_STATUS_REVOKED, revoked_at := Some now\<rparr>) d
      in (0 < rowCount, d'))"

text \<open>
  \<^verbatim>\<open>revokeAllSessions\<close>: \<^verbatim>\<open>if (excludeSessionId)\<close> adds the exclusion for an
  identifier that is given and not empty.
\<close>

definition excluding :: "uuid option \<Rightarrow> bool" where
  "excluding x = (case x of None \<Rightarrow> False | Some v \<Rightarrow> v \<noteq> [])"

definition revokeAllSessions :: "uuid \<Rightarrow> uuid option \<Rightarrow> timestamp \<Rightarrow> db \<Rightarrow> nat \<times> db" where
  "revokeAllSessions userId excludeSessionId now d =
     sql_update
       (\<lambda>s. user_id s = userId \<and> status s = SESSION_STATUS_ACTIVE \<and>
            (excluding excludeSessionId \<longrightarrow> Some (s_id s) \<noteq> excludeSessionId))
       (\<lambda>s. s\<lparr>status := SESSION_STATUS_REVOKED, revoked_at := Some now\<rparr>) d"

definition revokeSessionsByType :: "uuid \<Rightarrow> string \<Rightarrow> timestamp \<Rightarrow> db \<Rightarrow> nat \<times> db" where
  "revokeSessionsByType userId deviceType now d =
     sql_update
       (\<lambda>s. user_id s = userId \<and> device_info s = Some deviceType \<and>
            status s = SESSION_STATUS_ACTIVE)
       (\<lambda>s. s\<lparr>status := SESSION_STATUS_REVOKED, revoked_at := Some now\<rparr>) d"

definition cleanupExpiredSessions :: "timestamp \<Rightarrow> db \<Rightarrow> nat \<times> db" where
  "cleanupExpiredSessions now d =
     sql_update (\<lambda>s. status s = SESSION_STATUS_ACTIVE \<and> expires_at s < now)
       (\<lambda>s. s\<lparr>status := SESSION_STATUS_EXPIRED\<rparr>) d"

definition countActiveSessions :: "uuid \<Rightarrow> timestamp \<Rightarrow> db \<Rightarrow> nat" where
  "countActiveSessions userId now d =
     length (filter (\<lambda>s. user_id s = userId \<and> status s = SESSION_STATUS_ACTIVE \<and>
                         now < expires_at s) (sessions d))"

section \<open>The minimum-role gate (middleware/permissions.js over middleware/auth.js)\<close>

text \<open>
  \<^verbatim>\<open>permissions.js\<close> begins with \<^verbatim>\<open>require('./auth')\<close> and
  \<^verbatim>\<open>require('./rbac')\<close>, from which it takes \<^verbatim>\<open>ROLE_HIERARCHY\<close>: it is loaded
  when the rbac module is.
\<close>

definition load_permissions :: "js_error + rbac_module" where
  "load_permissions = (case load_rbac of Inl e \<Rightarrow> Inl e | Inr m \<Rightarrow> Inr m)"

datatype app_error = AuthenticationError string | AuthorizationError string

text \<open>
  \<^verbatim>\<open>authenticate\<close>. Reading the header and verifying the token are outside the
  model: \<open>decoded\<close> is their outcome, the error \<^verbatim>\<open>authenticate\<close> raises for a
  missing, expired or invalid token, or else \<^verbatim>\<open>decoded.userId\<close>. The user lookup has
  one parameter, the user id, and its condition reads \<^verbatim>\<open>id = $1 AND status = $1\<close>:
  both the id column and the status column are compared with the user id. The result is
  the error handed to \<^verbatim>\<open>next\<close>, or the row that becomes \<^verbatim>\<open>req.user\<close>.
\<close>

definition authenticate :: "app_error + uuid \<Rightarrow> db \<Rightarrow> app_error + users_row" where
  "authenticate decoded d =
     (case decoded of
        Inl e \<Rightarrow> Inl e
      | Inr userId \<Rightarrow>
          (case filter (\<lambda>u. u_id u = userId \<and> u_status u = Some userId) (users d) of
             [] \<Rightarrow> Inl (AuthenticationError ''User not found or inactive'')
           | u # _ \<Rightarrow> Inr u))"

datatype outcome = Next | NextError app_error | Unhandled js_error

text \<open>
  The continuation \<^verbatim>\<open>requireMinRole(minimumRole)\<close> passes to \<^verbatim>\<open>authenticate\<close>,
  run on \<^verbatim>\<open>req.user\<close>. It is an async function without parameters: reading
  \<^verbatim>\<open>req.user.role\<close> of an unset \<^verbatim>\<open>req.user\<close> is a TypeError that rejects a
  promise nothing awaits. A null role reads the table at the key \<^verbatim>\<open>null\<close>.
\<close>

definition requireMinRole_continuation ::
    "rbac_module \<Rightarrow> string \<Rightarrow> users_row option \<Rightarrow> outcome" where
  "requireMinRole_continuation m minimumRole req_user =
     (case req_user of
        None \<Rightarrow> Unhandled TypeError
      | Some u \<Rightarrow>
          let userRole = (case u_role u of None \<Rightarrow> ''null'' | Some r \<Rightarrow> r);
              minRoleLevel = hierarchyLevel m minimumRole;
              userRoleLevel = hierarchyLevel m userRole
          in if js_ge userRoleLevel minRoleLevel then Next
             else NextError (AuthorizationError
                    (''Access denied. Minimum role required: '' @ minimumRole)))"

text \<open>
  The middleware \<^verbatim>\<open>requireMinRole(minimumRole)\<close> on a request whose \<^verbatim>\<open>req.user\<close>
  is \<open>req_user\<close> on entry. \<^verbatim>\<open>authenticate\<close> sets \<^verbatim>\<open>req.user\<close> and calls the
  continuation when it succeeds; when it fails it calls the same continuation with its
  error, which the continuation does not look at, and \<^verbatim>\<open>req.user\<close> stays as it was.
\<close>

definition requireMinRole ::
    "rbac_module \<Rightarrow> string \<Rightarrow> users_row option \<Rightarrow> app_error + uuid \<Rightarrow> db \<Rightarrow> outcome" where
  "requireMinRole m minimumRole req_user decoded d =
     (case authenticate decoded d of
        Inl e \<Rightarrow> requireMinRole_continuation m minimumRole req_user
      | Inr u \<Rightarrow> requireMinRole_continuation m minimumRole (Some u))"

section \<open>A small store to run the service on\<close>

text \<open>
  One user, no session yet; a random source that delivers the byte \<^verbatim>\<open>0xab\<close> each
  time; the default session lifetime. \<open>demo_session\<close> is the row that creating a session
  for the user at time 1000 puts into the store, \<open>demo_db1\<close> the store after that.
\<close>

definition demo_user :: users_row where
  "demo_user = \<lparr> u_id = ''u1'', u_name = ''Ann'', u_email = ''ann@example.com'',
                  u_role = Some ''user'', u_status = Some ''active'' \<rparr>"

definition demo_db :: db where
  "demo_db = \<lparr> users = [demo_user], sessions = [] \<rparr>"

definition demo_src :: entropy where
  "demo_src = (\<lambda>_. 0xab)"

definition demo_cfg :: config where
  "demo_cfg = \<lparr> cookie_max_age = None \<rparr>"

definition demo_md :: metadata where
  "demo_md = \<lparr> ip = Some ''10.0.0.1'', userAgent = None, deviceInfo = None \<rparr>"

definition demo_session :: sessions_row where
  "demo_session =
     \<lparr> s_id = ''s1'', user_id = ''u1'', session_token = generateSessionToken demo_src,
       ip_address = Some ''10.0.0.1'', user_agent = None, device_info = None,
       status = ''active'', expires_at = 604801000, created_at = 1000,
       last_active_at = 1000, revoked_at = None \<rparr>"

definition demo_db1 :: db where
  "demo_db1 = \<lparr> users = [demo_user], sessions = [demo_session] \<rparr>"

section \<open>Facts about the tables\<close>

lemmas PERMISSION_defs =
  USER_READ_def USER_UPDATE_def USER_DELETE_def USER_MANAGE_def
  INFLUENCER_READ_def INFLUENCER_CREATE_def INFLUENCER_UPDATE_def INFLUENCER_DELETE_def
  CAMPAIGN_READ_def CAMPAIGN_CREATE_def CAMPAIGN_UPDATE_def CAMPAIGN_DELETE_def
  MODEL_READ_def MODEL_CREATE_def MODEL_UPDATE_def MODEL_DELETE_def
  ANALYTICS_READ_def ANALYTICS_EXPORT_def ADMIN_ACCESS_def SYSTEM_CONFIG_def ROLE_MANAGE_def

lemmas ROLES_defs = ROLES_USER_def ROLES_MODERATOR_def ROLES_ADMIN_def ROLES_SUPER_ADMIN_def

section \<open>Loading the role module\<close>

lemma user_lt_moderator: "set ROLES_USER_PERMISSIONS \<subset> set ROLES_MODERATOR_PERMISSIONS"
proof (rule psubsetI)
  show "set ROLES_USER_PERMISSIONS \<subseteq> set ROLES_MODERATOR_PERMISSIONS"
    by (auto simp: ROLES_MODERATOR_PERMISSIONS_def)
  have "INFLUENCER_DELETE \<in> set ROLES_MODERATOR_PERMISSIONS"
    by (simp add: ROLES_MODERATOR_PERMISSIONS_def)
  moreover have "INFLUENCER_DELETE \<notin> set ROLES_USER_PERMISSIONS"
    by (simp add: ROLES_USER_PERMISSIONS_def PERMISSION_defs)
  ultimately show "set ROLES_USER_PERMISSIONS \<noteq> set ROLES_MODERATOR_PERMISSIONS"
    by blast
qed


lemma moderator_lt_admin: "set ROLES_MODERATOR_PERMISSIONS \<subset> set ROLES_ADMIN_PERMISSIONS"
proof (rule psubsetI)
  show "set ROLES_MODERATOR_PERMISSIONS \<subseteq> set ROLES_ADMIN_PERMISSIONS"
    by (auto simp: ROLES_ADMIN_PERMISSIONS_def)
  have "USER_MANAGE \<in> set ROLES_ADMIN_PERMISSIONS"
    by (simp add: ROLES_ADMIN_PERMISSIONS_def)
  moreover have "USER_MANAGE \<notin> set ROLES_MODERATOR_PERMISSIONS"
    by (simp add: ROLES_MODERATOR_PERMISSIONS_def ROLES_USER_PERMISSIONS_def PERMISSION_defs)
  ultimately show "set ROLES_MODERATOR_PERMISSIONS \<noteq> set ROLES_ADMIN_PERMISSIONS"
    by blast
qed

lemma admin_lt_super_admin: "set ROLES_ADMIN_PERMISSIONS \<subset> set (Object_values PERMISSIONS)"
proof (rule psubsetI)
  show "set ROLES_ADMIN_PERMISSIONS \<subseteq> set (Object_values PERMISSIONS)"
    by (simp add: ROLES_ADMIN_PERMISSIONS_def ROLES_MODERATOR_PERMISSIONS_def
        ROLES_USER_PERMISSIONS_def Object_values_def PERMISSIONS_def)
  have "SYSTEM_CONFIG \<in> set (Object_values PERMISSIONS)"
    by (simp add: Object_values_def PERMISSIONS_def)
  moreover have "SYSTEM_CONFIG \<notin> set ROLES_ADMIN_PERMISSIONS"
    by (simp add: ROLES_ADMIN_PERMISSIONS_def ROLES_MODERATOR_PERMISSIONS_def
        ROLES_USER_PERMISSIONS_def PERMISSION_defs)
  ultimately show "set ROLES_ADMIN_PERMISSIONS \<noteq> set (Object_values PERMISSIONS)"
    by blast
qed

text \<open>
  In a scope where the names had the values written for them, the literal would give the
  four roles these lists.
\<close>

lemma ROLE_PERMISSIONS_literal_bound:
  "ROLE_PERMISSIONS_literal
     [''ROLES_USER_PERMISSIONS'' \<mapsto> ROLES_USER_PERMISSIONS,
      ''ROLES_MODERATOR_PERMISSIONS'' \<mapsto> ROLES_MODERATOR_PERMISSIONS,
      ''ROLES_ADMIN_PERMISSIONS'' \<mapsto> ROLES_ADMIN_PERMISSIONS] =
   Inr [(ROLES_USER, ROLES_USER_PERMISSIONS),
        (ROLES_MODERATOR, ROLES_MODERATOR_PERMISSIONS),
        (ROLES_ADMIN, ROLES_ADMIN_PERMISSIONS),
        (ROLES_SUPER_ADMIN, Object_values PERMISSIONS)]"
  by (simp add: ROLE_PERMISSIONS_literal_def read_const_def
      ROLES_USER_PERMISSIONS_def ROLES_MODERATOR_PERMISSIONS_def ROLES_ADMIN_PERMISSIONS_def)

text \<open>
  C2. The claim is that \<^verbatim>\<open>getRolePermissions\<close> computes, for a role ranked strictly
  above another, a strict superset of the lower role's permissions. The lists the literal
  is written to give the roles have this property (super_admin over admin over moderator
  over user), but the module never builds the table: loading the file evaluates the
  literal while \<^verbatim>\<open>ROLES_USER_PERMISSIONS\<close> is still undeclared, and the spread in the
  moderator entry raises a ReferenceError.
\<close>

theorem ROLE_PERMISSIONS_load_fails:
  "load_ROLE_PERMISSIONS = Inl ReferenceError \<and>
   set ROLES_USER_PERMISSIONS \<subset> set ROLES_MODERATOR_PERMISSIONS \<and>
   set ROLES_MODERATOR_PERMISSIONS \<subset> set ROLES_ADMIN_PERMISSIONS \<and>
   set ROLES_ADMIN_PERMISSIONS \<subset> set (Object_values PERMISSIONS)"
  using user_lt_moderator moderator_lt_admin admin_lt_super_admin
  by (simp add: load_ROLE_PERMISSIONS_def ROLE_PERMISSIONS_literal_def read_const_def
      scope_at_load_def)

text \<open>
  So \<^verbatim>\<open>require\<close> of the role module fails, and with it every call of a function
  the module exports and the loading of the permission middleware.
\<close>

lemma load_rbac_fails: "load_rbac = Inl ReferenceError"
  by (simp add: load_rbac_def load_ROLE_PERMISSIONS_def ROLE_PERMISSIONS_literal_def
      read_const_def scope_at_load_def)

lemma with_rbac_fails: "with_rbac f = Inl ReferenceError"
  by (simp add: with_rbac_def load_rbac_fails)

lemma load_permissions_fails: "load_permissions = Inl ReferenceError"
  by (simp add: load_permissions_def load_rbac_fails)

lemma known_roles:
  "set (Object_values ROLES) = {''user'', ''moderator'', ''admin'', ''super_admin''}"
  by (auto simp: Object_values_def ROLES_def ROLES_defs)

section \<open>Access decisions\<close>

text \<open>
  C6. The claim is that \<^verbatim>\<open>userHasAllPermissions(user, [])\<close> returns true and
  \<^verbatim>\<open>userHasAnyPermission(user, [])\<close> returns false for a user that is present and
  has a role. For the user \<^verbatim>\<open>{id: 'u1', role: 'user'}\<close> neither call returns a
  value: the module that exports the two functions fails to load with the ReferenceError
  of the role table.
\<close>

theorem empty_requirement_not_answered:
  "with_rbac (\<lambda>m. userHasAllPermissions m (Some \<lparr>uid = ''u1'', role = Some ''user''\<rparr>) []) =
     Inl ReferenceError \<and>
   with_rbac (\<lambda>m. userHasAnyPermission m (Some \<lparr>uid = ''u1'', role = Some ''user''\<rparr>) []) =
     Inl ReferenceError"
  by (simp add: with_rbac_def load_rbac_fails)

text \<open>
  C7. The claim is that a role string outside the four roles gets the empty permission
  set, the hierarchy level 0 and the answer false, and that none of these lookups throws.
  For the role \<^verbatim>\<open>unknown_role\<close> each of the lookups ends in the ReferenceError of
  the role table, raised when the module is loaded.
\<close>

theorem unknown_role_not_answered:
  "''unknown_role'' \<notin> set (Object_values ROLES) \<and>
   with_rbac (\<lambda>m. Inr (getRolePermissions m ''unknown_role'')) = Inl ReferenceError \<and>
   with_rbac (\<lambda>m. Inr (hierarchyLevel m ''unknown_role'')) = Inl ReferenceError \<and>
   with_rbac (\<lambda>m. roleHasPermission m ''unknown_role'' USER_READ) = Inl ReferenceError"
  by (simp add: with_rbac_def load_rbac_fails known_roles)

text \<open>
  C10. The claim is that \<^verbatim>\<open>isRoleHigherOrEqual\<close> returns true for two role strings
  outside the four roles and that \<^verbatim>\<open>requireMinRole(minimumRole)\<close> therefore admits
  every authenticated user when \<^verbatim>\<open>minimumRole\<close> is such a string. For the roles
  \<^verbatim>\<open>guest\<close> and \<^verbatim>\<open>visitor\<close> the comparison returns no value, and the middleware
  module that defines \<^verbatim>\<open>requireMinRole\<close> cannot be loaded: both end in the
  ReferenceError of the role table.
\<close>

theorem unknown_roles_not_compared:
  "''guest'' \<notin> set (Object_values ROLES) \<and> ''visitor'' \<notin> set (Object_values ROLES) \<and>
   with_rbac (\<lambda>m. Inr (isRoleHigherOrEqual m ''guest'' ''visitor'')) = Inl ReferenceError \<and>
   load_permissions = Inl ReferenceError"
  by (simp add: with_rbac_def load_rbac_fails load_permissions_fails known_roles)

section \<open>The function bodies in a module that had loaded\<close>

text \<open>
  The bodies of the exported functions, read on their own in a module \<open>m\<close> whatever its
  tables are. On the empty list \<^verbatim>\<open>every\<close> is true and \<^verbatim>\<open>some\<close> is false.
\<close>

lemma bodies_empty_requirement:
  assumes "truthy_role u = Some r"
  shows "userHasAllPermissions m u [] = Inr True \<and> userHasAnyPermission m u [] = Inr False"
  using assms by (simp add: userHasAllPermissions_def userHasAnyPermission_def)

text \<open>
  A role that is neither a key of the tables nor the name of an inherited member gets the
  empty list, the level 0 and the answer \<open>False\<close>.
\<close>

lemma bodies_unknown_role:
  assumes "map_of (ROLE_PERMISSIONS m) r = None" and "map_of (ROLE_HIERARCHY m) r = None"
    and "r \<notin> set Object_prototype"
  shows "getRolePermissions m r = Own [] \<and> hierarchyLevel m r = Own 0 \<and>
         roleHasPermission m r p = Inr False"
  using assms
  by (simp add: getRolePermissions_def hierarchyLevel_def roleHasPermission_def js_get_def)

text \<open>
  For the name of an inherited member the reads of the tables find that member: the
  defaults \<^verbatim>\<open>|| []\<close> and \<^verbatim>\<open>|| 0\<close> do not apply, and \<^verbatim>\<open>includes\<close> is called on
  something that has no such method.
\<close>

lemma bodies_inherited_name:
  assumes "map_of (ROLE_PERMISSIONS m) ''constructor'' = None"
    and "map_of (ROLE_HIERARCHY m) ''constructor'' = None"
  shows "getRolePermissions m ''constructor'' = Inherited ''constructor'' \<and>
         hierarchyLevel m ''constructor'' = Inherited ''constructor'' \<and>
         roleHasPermission m ''constructor'' p = Inl TypeError"
  using assms
  by (simp add: getRolePermissions_def hierarchyLevel_def roleHasPermission_def js_get_def
      Object_prototype_def)

text \<open>
  The user lookup of \<^verbatim>\<open>authenticate\<close> finds no user whose status differs from its
  id, so \<^verbatim>\<open>req.user\<close> stays unset and the continuation of the gate ends in the
  TypeError.
\<close>

lemma authenticate_fails:
  assumes "\<forall>u \<in> set (users d). u_status u \<noteq> Some (u_id u)"
  shows "\<exists>e. authenticate decoded d = Inl e"
proof (cases decoded)
  case (Inl e)
  then show ?thesis by (simp add: authenticate_def)
next
  case (Inr userId)
  have "filter (\<lambda>u. u_id u = userId \<and> u_status u = Some userId) (users d) = []"
    using assms by (auto simp: filter_empty_conv)
  with Inr show ?thesis by (simp add: authenticate_def)
qed

lemma requireMinRole_unauthenticated:
  assumes "\<forall>u \<in> set (users d). u_status u \<noteq> Some (u_id u)"
  shows "requireMinRole m minimumRole None decoded d = Unhandled TypeError"
proof -
  from authenticate_fails [OF assms] obtain e where "authenticate decoded d = Inl e"
    by blast
  then show ?thesis
    by (simp add: requireMinRole_def requireMinRole_continuation_def)
qed

section \<open>Session tokens: length and alphabet\<close>

lemma hex_digit_in: "n < 16 \<Longrightarrow> hex_digit n \<in> set ''0123456789abcdef''"
  unfolding hex_digit_def by (rule nth_mem) simp

lemma high_nibble_lt: "unat (drop_bit 4 (b :: 8 word)) < 16"
proof -
  have "unat b < 256" using unsigned_less [of b] by simp
  then have "unat b div 16 < 16" by simp
  then show ?thesis by (simp add: drop_bit_eq_div unat_div)
qed

lemma low_nibble_lt: "unat ((b :: 8 word) AND 15) < 16"
proof -
  have "b AND 15 = take_bit 4 b"
    by (simp add: take_bit_eq_mask mask_eq_exp_minus_1)
  then have "unat (b AND 15) = take_bit 4 (unat b)"
    by (simp add: unsigned_take_bit_eq)
  also have "\<dots> < 2 ^ 4" by (rule take_bit_nat_less_exp)
  finally show ?thesis by simp
qed

lemma set_hex_byte: "set (hex_byte b) \<subseteq> set ''0123456789abcdef''"
  unfolding hex_byte_def using hex_digit_in [OF high_nibble_lt [of b]] hex_digit_in [OF low_nibble_lt [of b]]
  by simp

lemma length_toString_hex: "length (toString_hex buf) = 2 * length buf"
  unfolding toString_hex_def by (induction buf) (simp_all add: hex_byte_def)

lemma set_toString_hex: "set (toString_hex buf) \<subseteq> set ''0123456789abcdef''"
  unfolding toString_hex_def using set_hex_byte by (induction buf) auto

lemma length_generateSessionToken: "length (generateSessionToken src) = 128"
  by (simp add: generateSessionToken_def length_toString_hex randomBytes_def)

text \<open>
  C9. Whatever bytes the random source delivers, the session token is a string of exactly
  128 characters, each of them one of the lowercase hexadecimal digits 0-9, a-f: 64 bytes,
  two digits a byte.
\<close>

theorem generateSessionToken_hex128:
  "length (generateSessionToken src) = 128 \<and>
   set (generateSessionToken src) \<subseteq> set ''0123456789abcdef''"
  using length_generateSessionToken set_toString_hex by (simp add: generateSessionToken_def)

section \<open>The session store: what the statements do\<close>

lemmas SESSION_STATUS_defs =
  SESSION_STATUS_ACTIVE_def SESSION_STATUS_EXPIRED_def SESSION_STATUS_REVOKED_def

lemmas demo_defs =
  demo_user_def demo_db_def demo_cfg_def demo_md_def demo_session_def demo_db1_def

lemma generateSessionToken_neq:
  "length t \<noteq> 128 \<Longrightarrow> generateSessionToken src \<noteq> t"
  "length t \<noteq> 128 \<Longrightarrow> t \<noteq> generateSessionToken src"
  using length_generateSessionToken by auto

lemma fst_sql_update: "fst (sql_update c f d) = length (filter c (sessions d))"
  by (simp add: sql_update_def)

lemma sessions_sql_update:
  "sessions (snd (sql_update c f d)) = map (\<lambda>s. if c s then f s else s) (sessions d)"
  by (simp add: sql_update_def)

lemma users_sql_update: "users (snd (sql_update c f d)) = users d"
  by (simp add: sql_update_def)

lemma sql_update_keeps:
  "s \<in> set (sessions d) \<Longrightarrow> \<not> c s \<Longrightarrow> s \<in> set (sessions (snd (sql_update c f d)))"
  by (force simp: sessions_sql_update)

text \<open>Creating a session succeeds for a user of the users table when the generated
  identifier and token are not taken.\<close>

lemma createSession_succeeds:
  assumes "userId \<in> set (map u_id (users d))"
    and "\<forall>s \<in> set (sessions d). s_id s \<noteq> new_id \<and> session_token s \<noteq> generateSessionToken src"
  shows "\<exists>row. createSession cfg src new_id now userId md d =
                 Inr (row, d\<lparr>sessions := sessions d @ [row]\<rparr>) \<and>
               s_id row = new_id \<and> user_id row = userId \<and> status row = ''active'' \<and>
               session_token row = generateSessionToken src \<and>
               expires_at row = now + session_lifetime cfg"
  using assms by (auto simp: createSession_def Let_def)

lemma demo_created:
  "createSession demo_cfg demo_src ''s1'' 1000 ''u1'' demo_md demo_db =
     Inr (demo_session, demo_db1)"
  by (simp add: createSession_def demo_defs session_lifetime_def or_null_def Let_def)

subsection \<open>Validation\<close>

text \<open>Whatever \<^verbatim>\<open>validateSession\<close> returns is a stored, unexpired session that has
  the token both as its token and as its status, joined with its owner.\<close>

lemma validateSession_Some:
  assumes "validateSession token now d = Some (s, u)"
  shows "token = Some (status s) \<and> session_token s = status s \<and> now < expires_at s \<and>
         s \<in> set (sessions d) \<and> u \<in> set (users d) \<and> user_id s = u_id u"
proof -
  from assms obtain t where t: "token = Some t" "t \<noteq> []"
    by (auto simp: validateSession_def split: option.splits if_splits)
  define rows where "rows = [(s, u). s \<leftarrow> sessions d, u \<leftarrow> users d, user_id s = u_id u,
                 session_token s = t \<and> status s = t \<and> now < expires_at s]"
  from assms t have "(case rows of [] \<Rightarrow> None | r # _ \<Rightarrow> Some r) = Some (s, u)"
    by (simp add: validateSession_def rows_def)
  then have "(s, u) \<in> set rows"
    by (cases rows) simp_all
  then show ?thesis using t by (auto simp: rows_def split: if_splits)
qed

text \<open>So a generated token, 128 characters long, validates against no store whose
  sessions have shorter words as their status.\<close>

lemma validateSession_generated_token:
  assumes "\<forall>s \<in> set (sessions d). length (status s) \<noteq> 128"
  shows "validateSession (Some (generateSessionToken src)) now d = None"
proof (rule ccontr)
  assume "validateSession (Some (generateSessionToken src)) now d \<noteq> None"
  then obtain s u where "validateSession (Some (generateSessionToken src)) now d = Some (s, u)"
    by auto
  from validateSession_Some [OF this]
  have "status s = generateSessionToken src" and "s \<in> set (sessions d)"
    by simp_all
  with assms show False
    using length_generateSessionToken [of src] by auto
qed

lemma validateSession_no_token:
  "validateSession None now d = None" "validateSession (Some []) now d = None"
  by (simp_all add: validateSession_def)

text \<open>
  C1. The claim is that a session created by \<^verbatim>\<open>createSession\<close> validates by its token
  while it is active and not expired. On the demo store the session is created at time
  1000 with the identifier \<^verbatim>\<open>s1\<close> for the user \<^verbatim>\<open>u1\<close>; it is active and expires
  at 604801000. Validating its token at the same time 1000 returns null: the statement of
  \<^verbatim>\<open>validateSession\<close> compares the status column with the token, and \<^verbatim>\<open>active\<close> is
  not the token.
\<close>

theorem validateSession_after_createSession:
  "createSession demo_cfg demo_src ''s1'' 1000 ''u1'' demo_md demo_db =
     Inr (demo_session, demo_db1) \<and>
   s_id demo_session = ''s1'' \<and> user_id demo_session = ''u1'' \<and>
   status demo_session = SESSION_STATUS_ACTIVE \<and> 1000 < expires_at demo_session \<and>
   validateSession (Some (session_token demo_session)) 1000 demo_db1 = None"
proof -
  have "validateSession (Some (session_token demo_session)) 1000 demo_db1 = None"
    by (simp add: validateSession_def demo_defs generateSessionToken_neq)
  then show ?thesis
    using demo_created by (simp add: demo_session_def SESSION_STATUS_defs)
qed

subsection \<open>Revocation and expiry\<close>

text \<open>The bulk operations and the cleanup select active rows only, so a row that is
  revoked or expired stays as it is under them.\<close>

lemma not_active_kept:
  assumes "s \<in> set (sessions d)" and "status s \<noteq> ''active''"
  shows "s \<in> set (sessions (snd (revokeAllSessions userId ex now d)))"
    and "s \<in> set (sessions (snd (revokeSessionsByType userId deviceType now d)))"
    and "s \<in> set (sessions (snd (cleanupExpiredSessions now d)))"
  using assms
  by (simp_all add: revokeAllSessions_def revokeSessionsByType_def cleanupExpiredSessions_def
      sql_update_keeps SESSION_STATUS_defs)

text \<open>\<^verbatim>\<open>revokeSession\<close> returns false and changes nothing when no session has the
  identifier and the owner; it returns true for a session that has them, whatever its
  status.\<close>

lemma revokeSession_any_status:
  assumes "s \<in> set (sessions d)" and "s_id s = sessionId" and "user_id s = userId"
  shows "fst (revokeSession sessionId userId now d)"
proof -
  have "filter (\<lambda>s. s_id s = sessionId \<and> user_id s = userId) (sessions d) \<noteq> []"
    using assms by (auto simp: filter_empty_conv)
  then show ?thesis
    by (simp add: revokeSession_def sql_update_def)
qed

lemma revokeSession_no_row:
  assumes "\<forall>s \<in> set (sessions d). \<not> (s_id s = sessionId \<and> user_id s = userId)"
  shows "revokeSession sessionId userId now d = (False, d)"
proof -
  have "filter (\<lambda>s. s_id s = sessionId \<and> user_id s = userId) (sessions d) = []"
    using assms by (simp add: filter_empty_conv)
  moreover have "map (\<lambda>s. if s_id s = sessionId \<and> user_id s = userId
                          then s\<lparr>status := SESSION_STATUS_REVOKED, revoked_at := Some now\<rparr>
                          else s) (sessions d) = sessions d"
    using assms by (intro map_idI) auto
  ultimately show ?thesis
    by (simp add: revokeSession_def sql_update_def)
qed

text \<open>
  C3. The claim is that \<^verbatim>\<open>revokeSession\<close> returns false and changes nothing when the
  session is already non-active. On the demo store a first call at time 2000 revokes the
  session \<^verbatim>\<open>s1\<close> of the user \<^verbatim>\<open>u1\<close>. A second call at time 3000 on the session, now
  revoked, returns true again and moves \<^verbatim>\<open>revoked_at\<close> from 2000 to 3000.
\<close>

theorem revokeSession_twice:
  "revokeSession ''s1'' ''u1'' 2000 demo_db1 =
     (True, demo_db1\<lparr>sessions :=
        [demo_session\<lparr>status := ''revoked'', revoked_at := Some 2000\<rparr>]\<rparr>) \<and>
   revokeSession ''s1'' ''u1'' 3000
       (demo_db1\<lparr>sessions :=
          [demo_session\<lparr>status := ''revoked'', revoked_at := Some 2000\<rparr>]\<rparr>) =
     (True, demo_db1\<lparr>sessions :=
        [demo_session\<lparr>status := ''revoked'', revoked_at := Some 3000\<rparr>]\<rparr>)"
  by (simp add: revokeSession_def sql_update_def demo_defs SESSION_STATUS_defs)

text \<open>
  C4. The claim is that an expired or revoked session never changes its status again. On
  the demo store the cleanup at time 604801001, after the session's expiry, turns the
  session \<^verbatim>\<open>s1\<close> from active to expired; \<^verbatim>\<open>revokeSession\<close> a moment later turns the
  expired session into a revoked one.
\<close>

theorem revokeSession_after_expiry:
  "cleanupExpiredSessions 604801001 demo_db1 =
     (1, demo_db1\<lparr>sessions := [demo_session\<lparr>status := ''expired''\<rparr>]\<rparr>) \<and>
   revokeSession ''s1'' ''u1'' 604801002
       (demo_db1\<lparr>sessions := [demo_session\<lparr>status := ''expired''\<rparr>]\<rparr>) =
     (True, demo_db1\<lparr>sessions :=
        [demo_session\<lparr>status := ''revoked'', revoked_at := Some 604801002\<rparr>]\<rparr>)"
  by (simp add: cleanupExpiredSessions_def revokeSession_def sql_update_def demo_defs
      SESSION_STATUS_defs)

subsection \<open>Masking\<close>

lemma length_mask_token: "8 \<le> length t \<Longrightarrow> length (mask_token t) = 19"
  by (simp add: mask_token_def)

text \<open>Every row \<^verbatim>\<open>getUserSessions\<close> lists is a stored row with its token masked.\<close>

lemma getUserSessions_masked:
  assumes "getUserSessions userId opts d = Inr l" and "v \<in> set (listed l)"
  shows "\<exists>s \<in> set (sessions d). v = s\<lparr>session_token := mask_token (session_token s)\<rparr>"
proof -
  define st where "st = (case opt_status opts of None \<Rightarrow> ''active'' | Some v \<Rightarrow> v)"
  define pg where "pg = (case opt_page opts of None \<Rightarrow> 1 | Some v \<Rightarrow> v)"
  define lim where "lim = (case opt_limit opts of None \<Rightarrow> 20 | Some v \<Rightarrow> v)"
  define rows where "rows = take (nat lim) (drop (nat ((pg - 1) * lim))
    (sort_key (\<lambda>s. - last_active_at s)
      (filter (\<lambda>s. user_id s = userId \<and> (st \<noteq> ''all'' \<longrightarrow> status s = st)) (sessions d))))"
  have sub: "set rows \<subseteq> set (sessions d)"
    unfolding rows_def by (auto dest!: in_set_takeD in_set_dropD)
  from assms(1)
  have "listed l = map (\<lambda>s. s\<lparr>session_token := mask_token (session_token s)\<rparr>) rows"
    by (auto simp: getUserSessions_def Let_def st_def pg_def lim_def rows_def
        split: if_splits)
  with assms(2) obtain s where "s \<in> set rows"
    and "v = s\<lparr>session_token := mask_token (session_token s)\<rparr>"
    by auto
  with sub show ?thesis by blast
qed

text \<open>What \<^verbatim>\<open>getSessionById\<close> returns is a row of the store.\<close>

lemma getSessionById_stored:
  assumes "getSessionById sessionId userId d = Some r"
  shows "r \<in> set (sessions d) \<and> s_id r = sessionId \<and> user_id r = userId"
proof -
  define rows where "rows = filter (\<lambda>s. s_id s = sessionId \<and> user_id s = userId) (sessions d)"
  from assms have "r \<in> set rows"
    by (cases rows) (simp_all add: getSessionById_def rows_def)
  then show ?thesis by (simp add: rows_def)
qed

text \<open>
  C5. The claim is that the record \<^verbatim>\<open>getSessionById\<close> returns carries the masked
  token, never the raw one. On the demo store \<^verbatim>\<open>getSessionById('s1', 'u1')\<close> returns
  the stored row: its token is the 128 characters that were generated, which is not their
  19-character mask.
\<close>

theorem getSessionById_raw_token:
  "getSessionById ''s1'' ''u1'' demo_db1 = Some demo_session \<and>
   session_token demo_session = generateSessionToken demo_src \<and>
   length (session_token demo_session) = 128 \<and>
   length (mask_token (generateSessionToken demo_src)) = 19 \<and>
   session_token demo_session \<noteq> mask_token (generateSessionToken demo_src)"
proof -
  have m: "length (mask_token (generateSessionToken demo_src)) = 19"
    by (simp add: length_mask_token length_generateSessionToken)
  then have "generateSessionToken demo_src \<noteq> mask_token (generateSessionToken demo_src)"
    by (simp add: generateSessionToken_neq)
  with m show ?thesis
    by (simp add: getSessionById_def demo_defs length_generateSessionToken)
qed

subsection \<open>Revoking all sessions of a user\<close>

lemma countActiveSessions_mono:
  assumes "countActiveSessions userId now0 d = 0" and "now0 \<le> t"
  shows "countActiveSessions userId t d = 0"
proof -
  have "\<forall>s \<in> set (sessions d).
          \<not> (user_id s = userId \<and> status s = SESSION_STATUS_ACTIVE \<and> now0 < expires_at s)"
    using assms(1) by (simp add: countActiveSessions_def filter_empty_conv)
  then have "\<forall>s \<in> set (sessions d).
          \<not> (user_id s = userId \<and> status s = SESSION_STATUS_ACTIVE \<and> t < expires_at s)"
    using assms(2) by fastforce
  then show ?thesis by (simp add: countActiveSessions_def filter_empty_conv)
qed

lemma countActiveSessions_after_create:
  assumes "createSession cfg src new_id now0 userId md d0 = Inr (s, d)"
  shows "countActiveSessions userId t d =
           countActiveSessions userId t d0 + (if t < now0 + session_lifetime cfg then 1 else 0)"
  using assms
  by (auto simp: createSession_def countActiveSessions_def Let_def SESSION_STATUS_defs
      split: if_splits)

lemma countActiveSessions_after_revokeAll:
  assumes "\<not> excluding ex"
  shows "countActiveSessions userId t (snd (revokeAllSessions userId ex now d)) = 0"
  using assms
  by (auto simp: countActiveSessions_def revokeAllSessions_def sessions_sql_update
      filter_empty_conv SESSION_STATUS_defs)

lemma revokeAllSessions_condition:
  "(\<lambda>s. user_id s = userId \<and> status s = SESSION_STATUS_ACTIVE \<and>
         (excluding ex \<longrightarrow> Some (s_id s) \<noteq> ex)) =
   (\<lambda>s. user_id s = userId \<and> status s = ''active'' \<and>
         (excluding ex \<longrightarrow> Some (s_id s) \<noteq> ex))"
  by (simp add: SESSION_STATUS_defs)

lemma fst_revokeAllSessions:
  "fst (revokeAllSessions userId ex now d) =
     length (filter (\<lambda>s. user_id s = userId \<and> status s = ''active'' \<and>
                          (excluding ex \<longrightarrow> Some (s_id s) \<noteq> ex)) (sessions d))"
  unfolding revokeAllSessions_def fst_sql_update revokeAllSessions_condition ..

lemma sessions_revokeAllSessions:
  "sessions (snd (revokeAllSessions userId ex now d)) =
     map (\<lambda>s. if user_id s = userId \<and> status s = ''active'' \<and>
                  (excluding ex \<longrightarrow> Some (s_id s) \<noteq> ex)
               then s\<lparr>status := ''revoked'', revoked_at := Some now\<rparr> else s) (sessions d)"
  unfolding revokeAllSessions_def sessions_sql_update revokeAllSessions_condition
    SESSION_STATUS_REVOKED_def ..

text \<open>
  C8. \<^verbatim>\<open>revokeAllSessions(userId, excludeSessionId)\<close> returns the number of sessions of
  the user that are active and not the one to spare (an exclusion is in force when the
  identifier is given and not empty); it turns exactly those sessions into revoked ones,
  stamped with the current time, and leaves every other row and the users as they are.
  Without an exclusion the user has no active session afterwards, at whatever time they
  are counted. In particular: when a session is created for a user who had no active
  session, \<^verbatim>\<open>countActiveSessions\<close> returns 1 as long as the new session has not
  expired, and after \<^verbatim>\<open>revokeAllSessions\<close> without an exclusion it returns 0.
\<close>

theorem revokeAllSessions_spec:
  "fst (revokeAllSessions userId ex now d) =
     length (filter (\<lambda>s. user_id s = userId \<and> status s = ''active'' \<and>
                          (excluding ex \<longrightarrow> Some (s_id s) \<noteq> ex)) (sessions d)) \<and>
   sessions (snd (revokeAllSessions userId ex now d)) =
     map (\<lambda>s. if user_id s = userId \<and> status s = ''active'' \<and>
                  (excluding ex \<longrightarrow> Some (s_id s) \<noteq> ex)
               then s\<lparr>status := ''revoked'', revoked_at := Some now\<rparr> else s) (sessions d) \<and>
   users (snd (revokeAllSessions userId ex now d)) = users d \<and>
   (\<not> excluding ex \<longrightarrow>
      countActiveSessions userId t (snd (revokeAllSessions userId ex now d)) = 0) \<and>
   (createSession cfg src new_id now0 userId md d0 = Inr (s0, d) \<and>
    countActiveSessions userId now0 d0 = 0 \<and> now0 \<le> t0 \<and> t0 < now0 + session_lifetime cfg \<and>
    \<not> excluding ex \<longrightarrow>
      countActiveSessions userId t0 d = 1 \<and>
      countActiveSessions userId t (snd (revokeAllSessions userId ex now d)) = 0)"
proof (intro conjI impI)
  show "fst (revokeAllSessions userId ex now d) =
     length (filter (\<lambda>s. user_id s = userId \<and> status s = ''active'' \<and>
                          (excluding ex \<longrightarrow> Some (s_id s) \<noteq> ex)) (sessions d))"
    by (rule fst_revokeAllSessions)
  show "sessions (snd (revokeAllSessions userId ex now d)) =
     map (\<lambda>s. if user_id s = userId \<and> status s = ''active'' \<and>
                  (excluding ex \<longrightarrow> Some (s_id s) \<noteq> ex)
               then s\<lparr>status := ''revoked'', revoked_at := Some now\<rparr> else s) (sessions d)"
    by (rule sessions_revokeAllSessions)
  show "users (snd (revokeAllSessions userId ex now d)) = users d"
    by (simp add: revokeAllSessions_def users_sql_update)
  {
    assume "\<not> excluding ex"
    then show "countActiveSessions userId t (snd (revokeAllSessions userId ex now d)) = 0"
      by (rule countActiveSessions_after_revokeAll)
  }
  {
    assume a: "createSession cfg src new_id now0 userId md d0 = Inr (s0, d) \<and>
      countActiveSessions userId now0 d0 = 0 \<and> now0 \<le> t0 \<and> t0 < now0 + session_lifetime cfg \<and>
      \<not> excluding ex"
    then have c: "createSession cfg src new_id now0 userId md d0 = Inr (s0, d)" by simp
    have z: "countActiveSessions userId t0 d0 = 0"
      using a countActiveSessions_mono by blast
    show "countActiveSessions userId t0 d = 1"
      using a z by (simp add: countActiveSessions_after_create [OF c])
    show "countActiveSessions userId t (snd (revokeAllSessions userId ex now d)) = 0"
      using a by (simp add: countActiveSessions_after_revokeAll)
  }
qed

text \<open>
  The theorem on the demo store: the session is created at time 1000, counted at 1500,
  all sessions of the user are revoked at 2000 and counted again at 2500.
\<close>

theorem revokeAllSessions_spec_witness:
  "createSession demo_cfg demo_src ''s1'' 1000 ''u1'' demo_md demo_db =
     Inr (demo_session, demo_db1) \<and>
   countActiveSessions ''u1'' 1000 demo_db = 0 \<and>
   (1000::int) \<le> 1500 \<and> 1500 < 1000 + session_lifetime demo_cfg \<and> \<not> excluding None \<and>
   countActiveSessions ''u1'' 1500 demo_db1 = 1 \<and>
   fst (revokeAllSessions ''u1'' None 2000 demo_db1) = 1 \<and>
   sessions (snd (revokeAllSessions ''u1'' None 2000 demo_db1)) =
     [demo_session\<lparr>status := ''revoked'', revoked_at := Some 2000\<rparr>] \<and>
   countActiveSessions ''u1'' 2500 (snd (revokeAllSessions ''u1'' None 2000 demo_db1)) = 0"
proof -
  have h: "countActiveSessions ''u1'' 1000 demo_db = 0"
    "(1000::int) \<le> 1500" "1500 < 1000 + session_lifetime demo_cfg" "\<not> excluding None"
    by (simp_all add: countActiveSessions_def demo_defs session_lifetime_def excluding_def)
  have s: "sessions demo_db1 = [demo_session]" "status demo_session = ''active''"
    "user_id demo_session = ''u1''"
    by (simp_all add: demo_defs)
  from revokeAllSessions_spec [of "''u1''" None 2000 demo_db1 2500 demo_cfg demo_src
      "''s1''" 1000 demo_md demo_db demo_session 1500] demo_created h
  show ?thesis by (simp add: s)
qed

end
